theory Spec2Isabelle
  imports Complex_Main
begin

section \<open>Python values, errors and results\<close>

text \<open>
  The model follows \<open>gssnng/score_funs.py\<close>. Every exception the Python can raise is a
  value: a computation returns \<open>Inl e\<close> when it raises \<open>e\<close> and \<open>Inr v\<close> when it
  returns \<open>v\<close>.
\<close>

datatype pyerr = TypeError | KeyError | AttributeError | IndexError | UnboundLocalError

type_synonym 'a res = "pyerr + 'a"

definition bind_res :: "'a res \<Rightarrow> ('a \<Rightarrow> 'b res) \<Rightarrow> 'b res" where
  "bind_res m f = (case m of Inl e \<Rightarrow> Inl e | Inr v \<Rightarrow> f v)"

text \<open>
  A numpy float. The entries of a table are finite numbers, modelled as reals (rounding and
  overflow of finite arithmetic are not modelled); the special values that a division by
  zero produces, and that every later operation propagates, are explicit. Zero is the
  positive zero (the divisors of this file are lengths, standard deviations and MADs).
\<close>

datatype npfloat = Fin real | PInf | NInf | NaN

fun np_add :: "npfloat \<Rightarrow> npfloat \<Rightarrow> npfloat" where
  "np_add (Fin a) (Fin b) = Fin (a + b)"
| "np_add NaN _ = NaN"
| "np_add _ NaN = NaN"
| "np_add PInf NInf = NaN"
| "np_add NInf PInf = NaN"
| "np_add PInf _ = PInf"
| "np_add _ PInf = PInf"
| "np_add NInf _ = NInf"
| "np_add _ NInf = NInf"

fun np_neg :: "npfloat \<Rightarrow> npfloat" where
  "np_neg (Fin a) = Fin (- a)"
| "np_neg PInf = NInf"
| "np_neg NInf = PInf"
| "np_neg NaN = NaN"

definition np_sub :: "npfloat \<Rightarrow> npfloat \<Rightarrow> npfloat" where
  "np_sub a b = np_add a (np_neg b)"

fun np_abs :: "npfloat \<Rightarrow> npfloat" where
  "np_abs (Fin a) = Fin \<bar>a\<bar>"
| "np_abs PInf = PInf"
| "np_abs NInf = PInf"
| "np_abs NaN = NaN"

fun np_mul :: "npfloat \<Rightarrow> npfloat \<Rightarrow> npfloat" where
  "np_mul (Fin a) (Fin b) = Fin (a * b)"
| "np_mul NaN _ = NaN"
| "np_mul _ NaN = NaN"
| "np_mul (Fin a) PInf = (if a = 0 then NaN else if 0 < a then PInf else NInf)"
| "np_mul (Fin a) NInf = (if a = 0 then NaN else if 0 < a then NInf else PInf)"
| "np_mul PInf (Fin b) = (if b = 0 then NaN else if 0 < b then PInf else NInf)"
| "np_mul NInf (Fin b) = (if b = 0 then NaN else if 0 < b then NInf else PInf)"
| "np_mul PInf PInf = PInf"
| "np_mul NInf NInf = PInf"
| "np_mul PInf NInf = NInf"
| "np_mul NInf PInf = NInf"

text \<open>
  Division of numpy floats does not raise: a finite non-zero number over zero is an
  infinity, zero over zero is nan (numpy only prints a warning).
\<close>

fun np_div :: "npfloat \<Rightarrow> npfloat \<Rightarrow> npfloat" where
  "np_div (Fin a) (Fin b) =
     (if b = 0 then (if a = 0 then NaN else if 0 < a then PInf else NInf) else Fin (a / b))"
| "np_div NaN _ = NaN"
| "np_div _ NaN = NaN"
| "np_div (Fin a) PInf = Fin 0"
| "np_div (Fin a) NInf = Fin 0"
| "np_div PInf (Fin b) = (if 0 \<le> b then PInf else NInf)"
| "np_div NInf (Fin b) = (if 0 \<le> b then NInf else PInf)"
| "np_div PInf PInf = NaN"
| "np_div PInf NInf = NaN"
| "np_div NInf PInf = NaN"
| "np_div NInf NInf = NaN"

fun np_sqrt :: "npfloat \<Rightarrow> npfloat" where
  "np_sqrt (Fin a) = (if a < 0 then NaN else Fin (sqrt a))"
| "np_sqrt PInf = PInf"
| "np_sqrt NInf = NaN"
| "np_sqrt NaN = NaN"

text \<open>The order of numpy floats that sorting uses, on values that are not nan.\<close>

fun np_le :: "npfloat \<Rightarrow> npfloat \<Rightarrow> bool" where
  "np_le (Fin a) (Fin b) = (a \<le> b)"
| "np_le NInf _ = True"
| "np_le _ PInf = True"
| "np_le _ _ = False"

subsection \<open>The numpy reductions\<close>

text \<open>
  \<open>np.sum\<close>, \<open>np.mean\<close>, \<open>np.std\<close> (population standard deviation, \<open>ddof = 0\<close>) and
  \<open>np.median\<close> over a sequence of floats. The mean, the standard deviation and the median
  of an empty sequence are nan; a nan among the elements makes the median nan.
\<close>

primrec np_sum :: "npfloat list \<Rightarrow> npfloat" where
  "np_sum [] = Fin 0"
| "np_sum (x # xs) = np_add x (np_sum xs)"

definition np_mean :: "npfloat list \<Rightarrow> npfloat" where
  "np_mean xs = np_div (np_sum xs) (Fin (real (length xs)))"

definition np_std :: "npfloat list \<Rightarrow> npfloat" where
  "np_std xs =
     (let m = np_mean xs
      in np_sqrt (np_mean (map (\<lambda>x. np_mul (np_abs (np_sub x m)) (np_abs (np_sub x m))) xs)))"

primrec np_insort :: "npfloat \<Rightarrow> npfloat list \<Rightarrow> npfloat list" where
  "np_insort x [] = [x]"
| "np_insort x (y # ys) = (if np_le x y then x # y # ys else y # np_insort x ys)"

primrec np_sort :: "npfloat list \<Rightarrow> npfloat list" where
  "np_sort [] = []"
| "np_sort (x # xs) = np_insort x (np_sort xs)"

definition np_median :: "npfloat list \<Rightarrow> npfloat" where
  "np_median xs =
     (if xs = [] \<or> NaN \<in> set xs then NaN
      else let s = np_sort xs; n = length xs
           in if even n then np_div (np_add (s ! (n div 2 - 1)) (s ! (n div 2))) (Fin 2)
              else s ! (n div 2))"

section \<open>The data model\<close>

text \<open>
  A pandas Series is a sequence of labelled values, in positional order; a label is a gene
  identifier. The table of one cell has an index and the columns \<open>counts\<close>, \<open>uprank\<close> and
  \<open>dnrank\<close>, of which a column may be absent (reading it then raises AttributeError).

  The model covers the tables of the specification: indexed by gene identifier, so that a
  label occurs once in a Series (on a repeated label pandas returns the sub-Series of all
  its entries, where the lookup below returns the first), and with columns of floats (the
  sums of a column of 64-bit integers are integers that wrap around, which the floats
  of this model do not).
\<close>

type_synonym series = "(string \<times> real) list"

record dataframe =
  index :: "string list"
  counts :: "series option"
  uprank :: "series option"
  dnrank :: "series option"

record geneset =
  name :: string
  mode :: string
  genes_up :: "string list"
  genes_dn :: "string list"

text \<open>
  The plain Python values of this program: method parameters, the ranked flag, and what
  \<open>method_selector\<close> returns, which is a tuple of floats or a string.
\<close>

datatype pyval =
    PNone
  | PBool bool
  | PInt int
  | PFloat npfloat
  | PStr string
  | PTuple "npfloat list"

text \<open>A positional argument of a call: a plain value or one of the containers.\<close>

datatype pyarg =
    AVal pyval
  | AList "real list"
  | ASeries series
  | AGenes "string list"
  | AGeneSet geneset

text \<open>The result of \<open>scorefun\<close>: \<open>dict(barcode=, name=, mode=, score=, var=)\<close>.\<close>

record score_result =
  res_barcode :: string
  res_name :: string
  res_mode :: string
  res_score :: pyval
  res_var :: pyval

text \<open>The collaborators from outside this file: \<open>statsmodels.robust.scale.mad\<close> and
  \<open>gssnng.util.normalisation\<close> (called with \<open>norm_method\<close>, \<open>library_len\<close>,
  \<open>score_list\<close>, \<open>score\<close> and \<open>sig_len\<close>).\<close>

record ext =
  mad :: "real list \<Rightarrow> npfloat"
  normalisation :: "pyval \<Rightarrow> nat \<Rightarrow> real list \<Rightarrow> npfloat \<Rightarrow> int \<Rightarrow> npfloat res"

subsection \<open>Python operations on values\<close>

text \<open>\<open>s[j]\<close> on a Series looks the label up and raises KeyError when it is absent.\<close>

definition series_getitem :: "series \<Rightarrow> string \<Rightarrow> real res" where
  "series_getitem s j = (case map_of s j of None \<Rightarrow> Inl KeyError | Some v \<Rightarrow> Inr v)"

text \<open>\<open>d[k]\<close> on a dict.\<close>

definition dict_getitem :: "(string \<rightharpoonup> pyval) \<Rightarrow> string \<Rightarrow> pyval res" where
  "dict_getitem d k = (case d k of None \<Rightarrow> Inl KeyError | Some v \<Rightarrow> Inr v)"

text \<open>\<open>x.counts\<close>, \<open>x.uprank\<close>, \<open>x.dnrank\<close>.\<close>

definition column :: "series option \<Rightarrow> series res" where
  "column c = (case c of None \<Rightarrow> Inl AttributeError | Some s \<Rightarrow> Inr s)"

text \<open>
  \<open>v[i]\<close> for a non-negative \<open>i\<close>: an element of a tuple, a one-character string of a
  string; IndexError out of range, TypeError on a value that cannot be indexed.
\<close>

fun py_getitem :: "pyval \<Rightarrow> nat \<Rightarrow> pyval res" where
  "py_getitem (PTuple vs) i = (if i < length vs then Inr (PFloat (vs ! i)) else Inl IndexError)"
| "py_getitem (PStr s) i = (if i < length s then Inr (PStr [s ! i]) else Inl IndexError)"
| "py_getitem _ i = Inl TypeError"

text \<open>
  \<open>a + b\<close>: numbers add (a bool counts as 0 or 1), strings and tuples concatenate,
  anything else raises TypeError.
\<close>

fun py_num :: "pyval \<Rightarrow> npfloat option" where
  "py_num (PBool b) = Some (Fin (if b then 1 else 0))"
| "py_num (PInt i) = Some (Fin (real_of_int i))"
| "py_num (PFloat f) = Some f"
| "py_num _ = None"

fun py_add :: "pyval \<Rightarrow> pyval \<Rightarrow> pyval res" where
  "py_add (PStr s) (PStr t) = Inr (PStr (s @ t))"
| "py_add (PTuple s) (PTuple t) = Inr (PTuple (s @ t))"
| "py_add (PFloat a) b = (case py_num b of Some y \<Rightarrow> Inr (PFloat (np_add a y)) | None \<Rightarrow> Inl TypeError)"
| "py_add a (PFloat b) = (case py_num a of Some x \<Rightarrow> Inr (PFloat (np_add x b)) | None \<Rightarrow> Inl TypeError)"
| "py_add (PInt a) (PInt b) = Inr (PInt (a + b))"
| "py_add (PInt a) (PBool b) = Inr (PInt (a + (if b then 1 else 0)))"
| "py_add (PBool a) (PInt b) = Inr (PInt ((if a then 1 else 0) + b))"
| "py_add (PBool a) (PBool b) = Inr (PInt ((if a then 1 else 0) + (if b then 1 else 0)))"
| "py_add _ _ = Inl TypeError"

text \<open>
  \<open>v == True\<close> and \<open>v == False\<close>: a number equals a bool when it equals 1 or 0; a string,
  a tuple and None equal neither.
\<close>

fun py_eq_bool :: "pyval \<Rightarrow> bool \<Rightarrow> bool" where
  "py_eq_bool (PBool a) b = (a = b)"
| "py_eq_bool (PInt i) b = (i = (if b then 1 else 0))"
| "py_eq_bool (PFloat (Fin r)) b = (r = (if b then 1 else 0))"
| "py_eq_bool _ b = False"

text \<open>
  What a numpy reduction or \<open>mad\<close> reads from an argument: the elements of a list, the
  values of a Series. Any other kind of argument is outside what this program passes and is
  modelled as a TypeError.
\<close>

fun array_of :: "pyarg \<Rightarrow> real list res" where
  "array_of (AList xs) = Inr xs"
| "array_of (ASeries s) = Inr (map snd s)"
| "array_of _ = Inl TypeError"

section \<open>The extractor\<close>

text \<open>
  \<open>expr_format(x, exprdat, geneset_genes)\<close>: the loop over the gene list, with the list
  \<open>su\<close> and the counter \<open>sig_len_up\<close> as they stand before each iteration.
\<close>

fun expr_loop :: "dataframe \<Rightarrow> series \<Rightarrow> string list \<Rightarrow> real list \<Rightarrow> int \<Rightarrow> (real list \<times> int) res" where
  "expr_loop x exprdat [] su sig_len_up = Inr (su, sig_len_up)"
| "expr_loop x exprdat (j # js) su sig_len_up =
     (if j \<in> set (index x)
      then bind_res (series_getitem exprdat j) (\<lambda>v. expr_loop x exprdat js (su @ [v]) sig_len_up)
      else expr_loop x exprdat js su (sig_len_up - 1))"

definition expr_format :: "dataframe \<Rightarrow> series \<Rightarrow> string list \<Rightarrow> (real list \<times> int) res" where
  "expr_format x exprdat geneset_genes =
     expr_loop x exprdat geneset_genes [] (int (length geneset_genes))"

section \<open>The scoring methods\<close>

text \<open>
  Each method returns the tuple \<open>(score, dispersion)\<close>. The parameters are typed by what
  the body does with them: \<open>su\<close> and \<open>exprdat\<close> are read as arrays of numbers, the \<open>x\<close> of
  \<open>singscore\<close> has an index, the \<open>su\<close> of \<open>rank_biased_overlap\<close> is sliced and has an
  index, its \<open>gs\<close> is iterated.
\<close>

definition summed_up :: "ext \<Rightarrow> real list \<Rightarrow> pyval" where
  "summed_up E su =
     (let mad_su = mad E su;
          score = np_sum (map Fin su)
      in PTuple [score, mad_su])"

definition median_score :: "ext \<Rightarrow> real list \<Rightarrow> pyval" where
  "median_score E su =
     (let cnts_med = np_median (map Fin su);
          mad_su = mad E su
      in PTuple [cnts_med, mad_su])"

definition average_score :: "real list \<Rightarrow> pyval" where
  "average_score su =
     (let cnts_mean = np_mean (map Fin su);
          std_su = np_std (map Fin su)
      in PTuple [cnts_mean, std_su])"

definition mean_z :: "real list \<Rightarrow> real list \<Rightarrow> pyval" where
  "mean_z exprdat su =
     (let vals_mean = np_mean (map Fin exprdat);
          vals_std = np_std (map Fin exprdat);
          centered = map (\<lambda>x. np_div (np_abs (np_sub (Fin x) vals_mean)) vals_std) su;
          score = np_mean centered
      in PTuple [score, vals_std])"

definition robust_std :: "ext \<Rightarrow> real list \<Rightarrow> real list \<Rightarrow> pyval" where
  "robust_std E exprdat su =
     (let cnts_med = np_median (map Fin exprdat);
          mad_su = mad E exprdat;
          centered_cnts = map (\<lambda>x. np_div (np_abs (np_sub (Fin x) cnts_med)) mad_su) su;
          score = np_median centered_cnts
      in PTuple [score, mad_su])"

text \<open>
  The loop of \<open>rank_biased_overlap\<close>: \<open>i\<close> is the position that \<open>enumerate\<close> gives, the
  fifth argument is what is left of \<open>gs\<close> to iterate, the last one is \<open>rbo_score\<close> before
  the iteration. The test \<open>i > limit\<close> comes after the prefix of length \<open>i + 1\<close> was
  scored.
\<close>

fun rbo_loop :: "series \<Rightarrow> string list \<Rightarrow> int \<Rightarrow> nat \<Rightarrow> string list \<Rightarrow> real \<Rightarrow> real" where
  "rbo_loop y gs limit i [] rbo_score = rbo_score"
| "rbo_loop y gs limit i (gi # rest) rbo_score =
     (let subrank = take (i + 1) y;
          subset = set (map fst subrank);
          rbo_score' = rbo_score + real (card (subset \<inter> set gs))
      in if int i > limit then rbo_score' else rbo_loop y gs limit (i + 1) rest rbo_score')"

definition rank_biased_overlap :: "ext \<Rightarrow> pyarg \<Rightarrow> series \<Rightarrow> string list \<Rightarrow> int \<Rightarrow> pyval" where
  "rank_biased_overlap E x su gs limit =
     (let rbo_score = rbo_loop su gs limit 0 gs 0;
          mad_up = mad E (map snd su)
      in PTuple [Fin rbo_score, mad_up])"

text \<open>
  The same body when \<open>su\<close> is a Python list: the slice of a list has no index to iterate
  (\<open>subrank.index\<close> is a method), so the first iteration raises TypeError; for an empty
  \<open>gs\<close> the loop does not run and the score is 0.0.
\<close>

definition rank_biased_overlap_of_list :: "ext \<Rightarrow> real list \<Rightarrow> string list \<Rightarrow> pyval res" where
  "rank_biased_overlap_of_list E su gs =
     (if gs = [] then Inr (PTuple [Fin 0, mad E su]) else Inl TypeError)"

definition singscore :: "ext \<Rightarrow> series \<Rightarrow> real list \<Rightarrow> int \<Rightarrow> pyval \<Rightarrow> pyval res" where
  "singscore E x su sig_len norm_method =
     (let score_up = np_mean (map Fin su)
      in bind_res (normalisation E norm_method (length (map fst x)) su score_up sig_len)
           (\<lambda>norm_up.
              let norm_up' = np_sub norm_up (Fin (1 / 2));
                  mad_up = mad E su
              in Inr (PTuple [norm_up', mad_up])))"

subsection \<open>Calls\<close>

text \<open>
  A call binds its positional arguments to the parameters of the function, and raises
  TypeError when there are more arguments than parameters or fewer than the parameters
  without a default. An argument of a kind that the body cannot use is modelled as a
  TypeError as well; in the calls that \<open>method_selector\<close> makes this arises only where the
  number of arguments is wrong already.
\<close>

fun summed_up_call :: "ext \<Rightarrow> pyarg list \<Rightarrow> pyval res" where
  "summed_up_call E [su] = bind_res (array_of su) (\<lambda>s. Inr (summed_up E s))"
| "summed_up_call E _ = Inl TypeError"

fun median_score_call :: "ext \<Rightarrow> pyarg list \<Rightarrow> pyval res" where
  "median_score_call E [su] = bind_res (array_of su) (\<lambda>s. Inr (median_score E s))"
| "median_score_call E _ = Inl TypeError"

fun average_score_call :: "pyarg list \<Rightarrow> pyval res" where
  "average_score_call [su] = bind_res (array_of su) (\<lambda>s. Inr (average_score s))"
| "average_score_call _ = Inl TypeError"

fun mean_z_call :: "pyarg list \<Rightarrow> pyval res" where
  "mean_z_call [exprdat, su] =
     bind_res (array_of exprdat) (\<lambda>e. bind_res (array_of su) (\<lambda>s. Inr (mean_z e s)))"
| "mean_z_call _ = Inl TypeError"

fun robust_std_call :: "ext \<Rightarrow> pyarg list \<Rightarrow> pyval res" where
  "robust_std_call E [exprdat, su] =
     bind_res (array_of exprdat) (\<lambda>e. bind_res (array_of su) (\<lambda>s. Inr (robust_std E e s)))"
| "robust_std_call E _ = Inl TypeError"

fun rank_biased_overlap_call :: "ext \<Rightarrow> pyarg list \<Rightarrow> pyval res" where
  "rank_biased_overlap_call E [x, ASeries su, AGenes gs] =
     Inr (rank_biased_overlap E x su gs 100)"
| "rank_biased_overlap_call E [x, ASeries su, AGenes gs, AVal (PInt limit)] =
     Inr (rank_biased_overlap E x su gs limit)"
| "rank_biased_overlap_call E [x, AList su, AGenes gs] = rank_biased_overlap_of_list E su gs"
| "rank_biased_overlap_call E [x, AList su, AGenes gs, limit] = rank_biased_overlap_of_list E su gs"
| "rank_biased_overlap_call E _ = Inl TypeError"

fun singscore_call :: "ext \<Rightarrow> pyarg list \<Rightarrow> pyval res" where
  "singscore_call E [ASeries x, su, AVal (PInt sig_len), AVal norm_method] =
     bind_res (array_of su) (\<lambda>s. singscore E x s sig_len norm_method)"
| "singscore_call E _ = Inl TypeError"

section \<open>The method selector and the mode combiner\<close>

definition method_selector ::
  "ext \<Rightarrow> geneset \<Rightarrow> dataframe \<Rightarrow> series \<Rightarrow> string list \<Rightarrow> string \<Rightarrow> (string \<rightharpoonup> pyval) \<Rightarrow> pyval res" where
  "method_selector E gs x exprdat geneset_genes method method_params =
     bind_res (expr_format x exprdat geneset_genes) (\<lambda>(su, sig_len).
       if method = ''singscore'' then
         bind_res (dict_getitem method_params ''normalization'') (\<lambda>nm.
           singscore_call E [ASeries exprdat, AList su, AVal (PInt sig_len), AVal nm])
       else if method = ''robust_std'' then
         robust_std_call E [ASeries exprdat, AList su]
       else if method = ''summed_up'' then
         summed_up_call E [AList su]
       else if method = ''median_score'' then
         median_score_call E [ASeries exprdat, AList su]
       else if method = ''average_score'' then
         average_score_call [ASeries exprdat, AList su]
       else if method = ''mean_z'' then
         mean_z_call [ASeries exprdat, AList su]
       else if method = ''rank_biased_overlap'' then
         bind_res (dict_getitem method_params ''rbo_depth'') (\<lambda>depth.
           rank_biased_overlap_call E
             [ASeries exprdat, AList su, AGeneSet gs, AVal (PStr (mode gs)), AVal depth])
       else Inr (PStr ''ERROR''))"

text \<open>
  The two shapes of the result dict: \<open>score=res0[0], var=res0[1]\<close>, and
  \<open>score=(res0_up[0]+res0_dn[0]), var=(res0_up[1]+res0_dn[1])\<close>.
\<close>

definition passthrough :: "string \<Rightarrow> geneset \<Rightarrow> pyval \<Rightarrow> score_result res" where
  "passthrough barcode gs res0 =
     bind_res (py_getitem res0 0) (\<lambda>s.
     bind_res (py_getitem res0 1) (\<lambda>v.
       Inr \<lparr>res_barcode = barcode, res_name = name gs, res_mode = mode gs,
            res_score = s, res_var = v\<rparr>))"

definition combined :: "string \<Rightarrow> geneset \<Rightarrow> pyval \<Rightarrow> pyval \<Rightarrow> score_result res" where
  "combined barcode gs res0_up res0_dn =
     bind_res (py_getitem res0_up 0) (\<lambda>su.
     bind_res (py_getitem res0_dn 0) (\<lambda>sd.
     bind_res (py_add su sd) (\<lambda>s.
     bind_res (py_getitem res0_up 1) (\<lambda>vu.
     bind_res (py_getitem res0_dn 1) (\<lambda>vd.
     bind_res (py_add vu vd) (\<lambda>v.
       Inr \<lparr>res_barcode = barcode, res_name = name gs, res_mode = mode gs,
            res_score = s, res_var = v\<rparr>))))))"

definition scorefun ::
  "ext \<Rightarrow> geneset \<Rightarrow> dataframe \<Rightarrow> string \<Rightarrow> (string \<rightharpoonup> pyval) \<Rightarrow> string \<Rightarrow> pyval \<Rightarrow> score_result res" where
  "scorefun E gs x method method_params barcode ranked =
     (if mode gs = ''UP'' \<and> py_eq_bool ranked False then
        bind_res (column (counts x)) (\<lambda>c.
        bind_res (method_selector E gs x c (genes_up gs) method method_params) (\<lambda>res0.
          passthrough barcode gs res0))
      else if mode gs = ''DN'' \<and> py_eq_bool ranked False then
        bind_res (column (counts x)) (\<lambda>c.
        bind_res (method_selector E gs x c (genes_dn gs) method method_params) (\<lambda>res0.
          passthrough barcode gs res0))
      else if mode gs = ''BOTH'' \<and> py_eq_bool ranked False then
        bind_res (column (counts x)) (\<lambda>cu.
        bind_res (method_selector E gs x cu (genes_up gs) method method_params) (\<lambda>res0_up.
        bind_res (column (counts x)) (\<lambda>cd.
        bind_res (method_selector E gs x cd (genes_dn gs) method method_params) (\<lambda>res0_dn.
          combined barcode gs res0_up res0_dn))))
      else if mode gs = ''UP'' \<and> py_eq_bool ranked True then
        bind_res (column (uprank x)) (\<lambda>c.
        bind_res (method_selector E gs x c (genes_up gs) method method_params) (\<lambda>res0.
          passthrough barcode gs res0))
      else if mode gs = ''DN'' \<and> py_eq_bool ranked True then
        bind_res (column (dnrank x)) (\<lambda>c.
        bind_res (method_selector E gs x c (genes_dn gs) method method_params) (\<lambda>res0.
          passthrough barcode gs res0))
      else if mode gs = ''BOTH'' \<and> py_eq_bool ranked True then
        bind_res (column (uprank x)) (\<lambda>cu.
        bind_res (method_selector E gs x cu (genes_up gs) method method_params) (\<lambda>res0_up.
        bind_res (column (dnrank x)) (\<lambda>cd.
        bind_res (method_selector E gs x cd (genes_dn gs) method method_params) (\<lambda>res0_dn.
          combined barcode gs res0_up res0_dn))))
      else Inl UnboundLocalError)"

section \<open>The formulas of the specification\<close>

text \<open>
  The mean and the population standard deviation of a sequence of reals, as the method
  table of the specification uses them; the scoring functions are compared with them below.
\<close>

definition spec_mean :: "real list \<Rightarrow> real" where
  "spec_mean xs = sum_list xs / real (length xs)"

definition spec_std :: "real list \<Rightarrow> real" where
  "spec_std xs = sqrt (spec_mean (map (\<lambda>e. (e - spec_mean xs)\<^sup>2) xs))"

section \<open>Example inputs\<close>

text \<open>
  One cell with four genes, a gene set whose up-list names a gene that the table does not
  have, and an instance of the two collaborators: the median absolute deviation from the
  median over the scale that statsmodels uses by default (the normal quantile at 3/4, as
  the float 0.6744897501960817), and the score over the library length. The theorems below
  hold for every instance of the collaborators; the examples run the model on these.
\<close>

definition mad_scale :: real where
  "mad_scale = 0.6744897501960817"

definition example_ext :: ext where
  "example_ext =
     \<lparr>mad = (\<lambda>xs. np_div (np_median (map (\<lambda>x. np_abs (np_sub (Fin x) (np_median (map Fin xs)))) xs))
                      (Fin mad_scale)),
      normalisation = (\<lambda>norm_method library_len score_list score sig_len.
                         Inr (np_div score (Fin (real library_len))))\<rparr>"

definition example_table :: dataframe where
  "example_table =
     \<lparr>index = [''A'', ''B'', ''C'', ''D''],
      counts = Some [(''A'', 1), (''B'', 3), (''C'', 1), (''D'', 3)],
      uprank = Some [(''A'', 1), (''B'', 2), (''C'', 3), (''D'', 4)],
      dnrank = Some [(''A'', 4), (''B'', 3), (''C'', 2), (''D'', 1)]\<rparr>"

definition example_geneset :: "string \<Rightarrow> geneset" where
  "example_geneset m =
     \<lparr>name = ''sig'', mode = m, genes_up = [''A'', ''Z'', ''B''], genes_dn = [''D'']\<rparr>"

definition example_ranking :: series where
  "example_ranking = [(''A'', 1), (''D'', 2), (''B'', 3), (''C'', 4)]"

text \<open>
  A cell whose counts are all equal, so that their standard deviation is 0, and whose
  up-ranks have 1 as median and as value of more than half of the genes, so that their MAD
  is 0.
\<close>

definition example_flat_table :: dataframe where
  "example_flat_table =
     \<lparr>index = [''A'', ''B'', ''C'', ''D''],
      counts = Some [(''A'', 2), (''B'', 2), (''C'', 2), (''D'', 2)],
      uprank = Some [(''A'', 1), (''B'', 1), (''C'', 1), (''D'', 5)],
      dnrank = None\<rparr>"

text \<open>
  A cell whose rank columns have the standard deviations 5 and 1.
\<close>

definition example_rank_table :: dataframe where
  "example_rank_table =
     \<lparr>index = [''A'', ''B'', ''C'', ''D''],
      counts = Some [(''A'', 1), (''B'', 3), (''C'', 1), (''D'', 3)],
      uprank = Some [(''A'', 14), (''B'', 0), (''C'', 8), (''D'', 6)],
      dnrank = Some [(''A'', 1), (''B'', 3), (''C'', 1), (''D'', 3)]\<rparr>"

section \<open>The extractor returns the present genes in order\<close>

lemma bind_res_simps:
  "bind_res (Inl e) f = Inl e"
  "bind_res (Inr v) f = f v"
  by (simp_all add: bind_res_def)

lemma expr_loop_present:
  assumes "set (index x) \<subseteq> fst ` set exprdat"
  shows "\<exists>vs. expr_loop x exprdat genes su n =
            Inr (su @ vs, n - int (length (filter (\<lambda>j. j \<notin> set (index x)) genes)))
          \<and> map Inr vs = map (series_getitem exprdat) (filter (\<lambda>j. j \<in> set (index x)) genes)"
proof (induction genes arbitrary: su n)
  case Nil
  show ?case by simp
next
  case (Cons j js)
  show ?case
  proof (cases "j \<in> set (index x)")
    case True
    with assms have "j \<in> fst ` set exprdat" by blast
    then obtain v where v: "map_of exprdat j = Some v"
      by (metis map_of_eq_None_iff not_Some_eq)
    from Cons.IH [of "su @ [v]" n] obtain vs where
      vs: "expr_loop x exprdat js (su @ [v]) n =
             Inr ((su @ [v]) @ vs, n - int (length (filter (\<lambda>j. j \<notin> set (index x)) js)))"
          "map Inr vs = map (series_getitem exprdat) (filter (\<lambda>j. j \<in> set (index x)) js)"
      by blast
    show ?thesis
      using True v vs by (intro exI [of _ "v # vs"]) (simp add: bind_res_simps series_getitem_def)
  next
    case False
    from Cons.IH [of su "n - 1"] obtain vs where
      vs: "expr_loop x exprdat js su (n - 1) =
             Inr (su @ vs, n - 1 - int (length (filter (\<lambda>j. j \<notin> set (index x)) js)))"
          "map Inr vs = map (series_getitem exprdat) (filter (\<lambda>j. j \<in> set (index x)) js)"
      by blast
    show ?thesis
      using False vs by (intro exI [of _ vs]) simp
  qed
qed

text \<open>
  Claim C3. When every label of the table's index is a label of the value source (the two
  are indexed alike), \<open>expr_format\<close> does not raise: it returns the values of the genes of
  the list that are in the index, in the order of the list, and as matched length their
  number \<open>k\<close>, which is the length \<open>n\<close> of the list less one for each absent gene. On the
  empty list it returns the empty sequence and 0.
\<close>

theorem expr_format_matched:
  assumes "set (index x) \<subseteq> fst ` set exprdat"
  shows "\<exists>vs. expr_format x exprdat genes =
            Inr (vs, int (length (filter (\<lambda>j. j \<in> set (index x)) genes)))
          \<and> length vs = length (filter (\<lambda>j. j \<in> set (index x)) genes)
          \<and> map Inr vs = map (series_getitem exprdat) (filter (\<lambda>j. j \<in> set (index x)) genes)
          \<and> int (length (filter (\<lambda>j. j \<in> set (index x)) genes)) =
              int (length genes) - int (length (filter (\<lambda>j. j \<notin> set (index x)) genes))
          \<and> expr_format x exprdat [] = Inr ([], 0)"
proof -
  let ?P = "\<lambda>j. j \<in> set (index x)"
  from expr_loop_present [OF assms, of genes "[]" "int (length genes)"] obtain vs where
    vs: "expr_loop x exprdat genes [] (int (length genes)) =
           Inr ([] @ vs, int (length genes) - int (length (filter (\<lambda>j. \<not> ?P j) genes)))"
        "map Inr vs = map (series_getitem exprdat) (filter ?P genes)"
    by blast
  have len: "length (filter ?P genes) + length (filter (\<lambda>j. \<not> ?P j) genes) = length genes"
    by (rule sum_length_filter_compl)
  have lv: "length vs = length (filter ?P genes)"
    using arg_cong [OF vs(2), of length] by simp
  show ?thesis
    using vs len lv by (intro exI [of _ vs]) (simp add: expr_format_def)
qed

theorem expr_format_matched_witness:
  "set (index example_table) \<subseteq> fst ` set [(''A'', 1), (''B'', 3), (''C'', 1), (''D'', 3)]
   \<and> expr_format example_table [(''A'', 1), (''B'', 3), (''C'', 1), (''D'', 3)] [''A'', ''Z'', ''B''] = Inr ([1, 3], 2)"
  using expr_format_matched [of example_table "[(''A'', 1), (''B'', 3), (''C'', 1), (''D'', 3)]" "[''A'', ''Z'', ''B'']"]
  by (simp add: example_table_def expr_format_def bind_res_simps series_getitem_def)

section \<open>Running the model on the examples\<close>

lemmas example_defs = example_ext_def example_table_def example_geneset_def example_ranking_def
  example_flat_table_def example_rank_table_def mad_scale_def

lemmas run_defs = method_selector_def expr_format_def series_getitem_def dict_getitem_def
  column_def passthrough_def combined_def mean_z_def summed_up_def robust_std_def
  median_score_def average_score_def singscore_def rank_biased_overlap_def
  np_mean_def np_std_def np_sub_def np_median_def

section \<open>The mode combiner\<close>

text \<open>
  Claim C1. For a gene set of mode BOTH and either value of the ranked flag, when the
  selector returns the pair of numbers \<open>(a, u)\<close> on the up-genes with the up value source
  (\<open>uprank\<close> if ranked, \<open>counts\<close> otherwise) and \<open>(d, w)\<close> on the down-genes with the down
  value source (\<open>dnrank\<close> if ranked, \<open>counts\<close> otherwise), the record that \<open>scorefun\<close>
  returns has the score \<open>a + d\<close> and the var \<open>u + w\<close>.
\<close>

theorem scorefun_both_sum:
  assumes "mode gs = ''BOTH''"
    and "ranked = PBool b"
    and "(if b then uprank x else counts x) = Some c_up"
    and "(if b then dnrank x else counts x) = Some c_dn"
    and "method_selector E gs x c_up (genes_up gs) method method_params = Inr (PTuple [Fin a, Fin u])"
    and "method_selector E gs x c_dn (genes_dn gs) method method_params = Inr (PTuple [Fin d, Fin w])"
  shows "scorefun E gs x method method_params barcode ranked =
           Inr \<lparr>res_barcode = barcode, res_name = name gs, res_mode = mode gs,
                res_score = PFloat (Fin (a + d)), res_var = PFloat (Fin (u + w))\<rparr>"
proof (cases b)
  case True
  with assms show ?thesis
    by (simp add: scorefun_def column_def bind_res_simps combined_def)
next
  case False
  with assms show ?thesis
    by (simp add: scorefun_def column_def bind_res_simps combined_def)
qed

lemma sqrt_25: "sqrt 25 = 5"
  by (rule real_sqrt_unique) simp_all

theorem scorefun_both_sum_witness:
  "scorefun example_ext (example_geneset ''BOTH'') example_rank_table ''mean_z'' Map.empty ''cell1'' (PBool True) =
     Inr \<lparr>res_barcode = ''cell1'', res_name = ''sig'', res_mode = ''BOTH'',
          res_score = PFloat (Fin (12 / 5)), res_var = PFloat (Fin 6)\<rparr>"
proof -
  have up: "method_selector example_ext (example_geneset ''BOTH'') example_rank_table
              [(''A'', 14), (''B'', 0), (''C'', 8), (''D'', 6)] (genes_up (example_geneset ''BOTH''))
              ''mean_z'' Map.empty = Inr (PTuple [Fin (7 / 5), Fin 5])"
    by (simp add: example_defs run_defs bind_res_simps sqrt_25)
  have dn: "method_selector example_ext (example_geneset ''BOTH'') example_rank_table
              [(''A'', 1), (''B'', 3), (''C'', 1), (''D'', 3)] (genes_dn (example_geneset ''BOTH''))
              ''mean_z'' Map.empty = Inr (PTuple [Fin 1, Fin 1])"
    by (simp add: example_defs run_defs bind_res_simps)
  have m: "mode (example_geneset ''BOTH'') = ''BOTH''"
    by (simp add: example_geneset_def)
  have c: "(if True then uprank example_rank_table else counts example_rank_table) =
             Some [(''A'', 14), (''B'', 0), (''C'', 8), (''D'', 6)]"
          "(if True then dnrank example_rank_table else counts example_rank_table) =
             Some [(''A'', 1), (''B'', 3), (''C'', 1), (''D'', 3)]"
    by (simp_all add: example_rank_table_def)
  show ?thesis
    using scorefun_both_sum [OF m refl c up dn, of "''cell1''"]
    by (simp add: example_geneset_def)
qed

text \<open>
  Claim C2. For a gene set of mode UP or DN, when the single call of the selector on the
  matching gene list, with \<open>counts\<close> as value source if the ranked flag is false and the
  matching rank column (\<open>uprank\<close> for UP, \<open>dnrank\<close> for DN) if it is true, returns the pair
  \<open>(s, v)\<close>, the record that \<open>scorefun\<close> returns has exactly the score \<open>s\<close> and the var \<open>v\<close>.
\<close>

theorem scorefun_single_passthrough:
  assumes "mode gs = ''UP'' \<or> mode gs = ''DN''"
    and "ranked = PBool b"
    and "(if b then (if mode gs = ''UP'' then uprank x else dnrank x) else counts x) = Some c"
    and "method_selector E gs x c (if mode gs = ''UP'' then genes_up gs else genes_dn gs)
           method method_params = Inr (PTuple [s, v])"
  shows "scorefun E gs x method method_params barcode ranked =
           Inr \<lparr>res_barcode = barcode, res_name = name gs, res_mode = mode gs,
                res_score = PFloat s, res_var = PFloat v\<rparr>"
proof (cases b)
  case True
  with assms show ?thesis
    by (auto simp add: scorefun_def column_def bind_res_simps passthrough_def)
next
  case False
  with assms show ?thesis
    by (auto simp add: scorefun_def column_def bind_res_simps passthrough_def)
qed

theorem scorefun_single_passthrough_witness:
  "scorefun example_ext (example_geneset ''DN'') example_table ''summed_up'' Map.empty ''cell1'' (PBool True) =
     Inr \<lparr>res_barcode = ''cell1'', res_name = ''sig'', res_mode = ''DN'',
          res_score = PFloat (Fin 1), res_var = PFloat (Fin 0)\<rparr>"
proof -
  have sel: "method_selector example_ext (example_geneset ''DN'') example_table
              [(''A'', 4), (''B'', 3), (''C'', 2), (''D'', 1)]
              (if mode (example_geneset ''DN'') = ''UP'' then genes_up (example_geneset ''DN'')
               else genes_dn (example_geneset ''DN''))
              ''summed_up'' Map.empty = Inr (PTuple [Fin 1, Fin 0])"
    by (simp add: example_defs run_defs bind_res_simps)
  have m: "mode (example_geneset ''DN'') = ''UP'' \<or> mode (example_geneset ''DN'') = ''DN''"
    by (simp add: example_geneset_def)
  have c: "(if True then (if mode (example_geneset ''DN'') = ''UP'' then uprank example_table
                          else dnrank example_table) else counts example_table) =
             Some [(''A'', 4), (''B'', 3), (''C'', 2), (''D'', 1)]"
    by (simp add: example_table_def example_geneset_def)
  show ?thesis
    using scorefun_single_passthrough [OF m refl c sel, of "''cell1''"]
    by (simp add: example_geneset_def)
qed

text \<open>
  Claim C10, as the code has it. The branches of \<open>scorefun\<close> test the flag with
  \<open>ranked == False\<close> and \<open>ranked == True\<close>. When the mode is not one of UP, DN, BOTH, or the
  flag equals neither False nor True, no branch assigns the result and the call fails with
  UnboundLocalError; so a call that returns a record has such a mode and such a flag.
\<close>

theorem scorefun_unbound:
  "(\<not> (mode gs \<in> {''UP'', ''DN'', ''BOTH''} \<and> (py_eq_bool ranked False \<or> py_eq_bool ranked True))
      \<longrightarrow> scorefun E gs x method method_params barcode ranked = Inl UnboundLocalError)
   \<and> (\<forall>r. scorefun E gs x method method_params barcode ranked = Inr r
      \<longrightarrow> mode gs \<in> {''UP'', ''DN'', ''BOTH''} \<and> (py_eq_bool ranked False \<or> py_eq_bool ranked True))"
  by (auto simp add: scorefun_def)

theorem scorefun_unbound_witness:
  "scorefun example_ext (example_geneset ''up'') example_table ''mean_z'' Map.empty ''cell1'' (PBool True)
     = Inl UnboundLocalError
   \<and> scorefun example_ext (example_geneset ''UP'') example_table ''mean_z'' Map.empty ''cell1'' PNone
     = Inl UnboundLocalError"
  using scorefun_unbound [of "example_geneset ''up''" "PBool True" example_ext example_table "''mean_z''" Map.empty "''cell1''"]
    scorefun_unbound [of "example_geneset ''UP''" PNone example_ext example_table "''mean_z''" Map.empty "''cell1''"]
  by (simp add: example_geneset_def)

text \<open>
  Claim C10 as stated fails on a flag that is not a boolean and yet equals one: the integer
  0 equals False, so with mode UP and \<open>ranked = 0\<close> the first branch runs and a record is
  returned.
\<close>

theorem scorefun_int_flag_counterexample:
  "scorefun example_ext (example_geneset ''UP'') example_table ''mean_z'' Map.empty ''cell1'' (PInt 0) =
     Inr \<lparr>res_barcode = ''cell1'', res_name = ''sig'', res_mode = ''UP'',
          res_score = PFloat (Fin 1), res_var = PFloat (Fin 1)\<rparr>"
  by (simp add: scorefun_def example_defs run_defs bind_res_simps)

section \<open>Rank biased overlap\<close>

lemma rbo_loop_sum:
  "rbo_loop y gs limit i rest acc =
     acc + (\<Sum>k<min (length rest) (nat (max 1 (limit + 2 - int i))).
              real (card (set (map fst (take (i + k + 1) y)) \<inter> set gs)))"
proof (induction rest arbitrary: i acc)
  case Nil
  show ?case by simp
next
  case (Cons gi rest)
  show ?case
  proof (cases "int i > limit")
    case True
    then have "nat (max 1 (limit + 2 - int i)) = 1" by simp
    then have "min (length (gi # rest)) (nat (max 1 (limit + 2 - int i))) = Suc 0" by simp
    with True show ?thesis by (simp add: Let_def)
  next
    case False
    then have n: "nat (max 1 (limit + 2 - int i)) = Suc (nat (max 1 (limit + 2 - int (i + 1))))"
      by simp
    have m: "min (length (gi # rest)) (nat (max 1 (limit + 2 - int i))) =
               Suc (min (length rest) (nat (max 1 (limit + 2 - int (i + 1)))))"
      unfolding n by simp
    show ?thesis
      using False unfolding m
      by (simp add: Let_def Cons.IH sum.lessThan_Suc_shift del: sum.lessThan_Suc)
  qed
qed

text \<open>
  Claim C4, as the code has it. The test \<open>i > limit\<close> follows the scoring of the prefix of
  length \<open>i + 1\<close>, so the loop scores the prefixes of lengths 1 to \<open>limit + 2\<close> (one prefix
  when \<open>limit < 0\<close>), or one prefix per element of the gene set when that has fewer
  elements; the score is the sum, over the scored prefixes, of the number of labels of the
  prefix that are in the gene set, and the dispersion is the MAD of the values.
\<close>

theorem rank_biased_overlap_prefixes:
  "rank_biased_overlap E x su gs limit =
     PTuple [Fin (\<Sum>k<min (length gs) (nat (max 1 (limit + 2))).
                    real (card (set (map fst (take (k + 1) su)) \<inter> set gs))),
             mad E (map snd su)]"
  by (simp add: rank_biased_overlap_def rbo_loop_sum)

theorem rank_biased_overlap_prefixes_witness:
  "min (length [''A'', ''B'', ''C'']) (nat (max 1 (1 + 2))) = 3
   \<and> rank_biased_overlap example_ext (ASeries example_ranking) example_ranking [''A'', ''B'', ''C''] 1 =
       PTuple [Fin (1 + 1 + 2), mad example_ext (map snd example_ranking)]"
  using rank_biased_overlap_prefixes [of example_ext "ASeries example_ranking" example_ranking "[''A'', ''B'', ''C'']" 1]
  by (simp add: example_ranking_def lessThan_nat_numeral lessThan_Suc)

text \<open>
  Claim C4 as stated fails on its own example: for the gene set \<open>{A, B, C}\<close>, the ranking
  \<open>[A, D, B, C]\<close> and \<open>limit = 1\<close> the prefixes of lengths 1, 2 and 3 are scored, with the
  counts 1, 1 and 2, and the score is 4, not 2.
\<close>

theorem rank_biased_overlap_limit_counterexample:
  "rank_biased_overlap example_ext (ASeries example_ranking) example_ranking [''A'', ''B'', ''C''] 1 =
     PTuple [Fin 4, Fin (1 / mad_scale)]
   \<and> rank_biased_overlap example_ext (ASeries example_ranking) example_ranking [''A'', ''B'', ''C''] 1 \<noteq>
     PTuple [Fin 2, Fin (1 / mad_scale)]"
  by (simp add: example_defs run_defs)

section \<open>Singscore\<close>

text \<open>
  Claim C7. When the normalisation collaborator returns a number \<open>r\<close> in \<open>[0, 1]\<close> on the
  arguments that \<open>singscore\<close> calls it with (the method, the length of the index of \<open>x\<close>,
  the values, their mean and the matched length), \<open>singscore\<close> returns the score
  \<open>r - 0.5\<close>, which lies in \<open>[-0.5, 0.5]\<close>, and the MAD of the values as dispersion.
\<close>

theorem singscore_centered:
  assumes "normalisation E norm_method (length x) su (np_mean (map Fin su)) sig_len = Inr (Fin r)"
    and "0 \<le> r" and "r \<le> 1"
  shows "singscore E x su sig_len norm_method = Inr (PTuple [Fin (r - 1 / 2), mad E su])
         \<and> - (1 / 2) \<le> r - 1 / 2 \<and> r - 1 / 2 \<le> 1 / 2"
  using assms by (simp add: singscore_def bind_res_simps np_sub_def)

theorem singscore_centered_witness:
  "singscore example_ext [(''A'', 1), (''B'', 2), (''C'', 3), (''D'', 4)] [1, 2] 2 (PStr ''standard'') =
     Inr (PTuple [Fin (3 / 8 - 1 / 2), mad example_ext [1, 2]])"
proof -
  have n: "normalisation example_ext (PStr ''standard'') (length [(''A'', 1::real), (''B'', 2), (''C'', 3), (''D'', 4)])
             [1, 2] (np_mean (map Fin [1, 2])) 2 = Inr (Fin (3 / 8))"
    by (simp add: example_ext_def np_mean_def)
  show ?thesis
    using singscore_centered [OF n] by simp
qed

section \<open>Mean z-score\<close>

lemma np_sum_Fin: "np_sum (map Fin xs) = Fin (sum_list xs)"
  by (induction xs) simp_all

lemma np_mean_Fin: "xs \<noteq> [] \<Longrightarrow> np_mean (map Fin xs) = Fin (spec_mean xs)"
  by (simp add: np_mean_def np_sum_Fin spec_mean_def)

lemma spec_mean_nonneg: "(\<And>x. x \<in> set xs \<Longrightarrow> 0 \<le> x) \<Longrightarrow> 0 \<le> spec_mean xs"
  by (simp add: spec_mean_def sum_list_nonneg)

lemma np_std_Fin:
  assumes "xs \<noteq> []"
  shows "np_std (map Fin xs) = Fin (spec_std xs)"
proof -
  have sq: "map (\<lambda>x. np_mul (np_abs (np_sub x (Fin (spec_mean xs)))) (np_abs (np_sub x (Fin (spec_mean xs)))))
              (map Fin xs) = map Fin (map (\<lambda>e. (e - spec_mean xs)\<^sup>2) xs)"
    by (simp add: np_sub_def power2_eq_square)
  have nn: "0 \<le> spec_mean (map (\<lambda>e. (e - spec_mean xs)\<^sup>2) xs)"
    by (rule spec_mean_nonneg) auto
  have ne: "map (\<lambda>e. (e - spec_mean xs)\<^sup>2) xs \<noteq> []"
    using assms by simp
  show ?thesis
    unfolding np_std_def Let_def np_mean_Fin [OF assms] sq np_mean_Fin [OF ne]
    using nn by (simp add: spec_std_def)
qed

lemma spec_std_Nil: "spec_std [] = 0"
  by (simp add: spec_std_def spec_mean_def)

text \<open>
  Claim C8. For every value column \<open>exprdat\<close> and non-empty \<open>su\<close>, \<open>mean_z\<close> returns as
  score the numpy mean over the \<open>x\<close> of \<open>su\<close> of \<open>|x - mean(exprdat)| / std(exprdat)\<close> and
  as dispersion \<open>std(exprdat)\<close>; where the standard deviation is not zero these are the
  real numbers that the formulas of the specification give.
\<close>

theorem mean_z_formula:
  assumes "su \<noteq> []"
  shows "mean_z exprdat su =
           PTuple [np_mean (map (\<lambda>x. np_div (np_abs (np_sub (Fin x) (np_mean (map Fin exprdat))))
                                         (np_std (map Fin exprdat))) su),
                   np_std (map Fin exprdat)]
         \<and> (spec_std exprdat \<noteq> 0 \<longrightarrow>
              mean_z exprdat su =
                PTuple [Fin (spec_mean (map (\<lambda>x. \<bar>x - spec_mean exprdat\<bar> / spec_std exprdat) su)),
                        Fin (spec_std exprdat)])"
proof (intro conjI impI)
  show "mean_z exprdat su =
           PTuple [np_mean (map (\<lambda>x. np_div (np_abs (np_sub (Fin x) (np_mean (map Fin exprdat))))
                                         (np_std (map Fin exprdat))) su),
                   np_std (map Fin exprdat)]"
    by (simp add: mean_z_def Let_def)
next
  assume s: "spec_std exprdat \<noteq> 0"
  then have ne: "exprdat \<noteq> []"
    using spec_std_Nil by auto
  have c: "map (\<lambda>x. np_div (np_abs (np_sub (Fin x) (Fin (spec_mean exprdat)))) (Fin (spec_std exprdat))) su
             = map Fin (map (\<lambda>x. \<bar>x - spec_mean exprdat\<bar> / spec_std exprdat) su)"
    using s by (simp add: np_sub_def)
  have ne': "map (\<lambda>x. \<bar>x - spec_mean exprdat\<bar> / spec_std exprdat) su \<noteq> []"
    using assms by simp
  show "mean_z exprdat su =
          PTuple [Fin (spec_mean (map (\<lambda>x. \<bar>x - spec_mean exprdat\<bar> / spec_std exprdat) su)),
                  Fin (spec_std exprdat)]"
    unfolding mean_z_def Let_def np_mean_Fin [OF ne] np_std_Fin [OF ne] c np_mean_Fin [OF ne']
    by simp
qed

lemma spec_std_example: "spec_std [1, 3, 1, 3] = 1"
  by (simp add: spec_std_def spec_mean_def)

theorem mean_z_formula_witness:
  "spec_std [1, 3, 1, 3] \<noteq> 0 \<and> mean_z [1, 3, 1, 3] [1, 3] = PTuple [Fin 1, Fin 1]"
proof -
  have s: "spec_std [1, 3, 1, 3] \<noteq> 0"
    by (simp add: spec_std_example)
  have ne: "[1, 3 :: real] \<noteq> []"
    by simp
  from mean_z_formula [OF ne, of "[1, 3, 1, 3]"] s
  have "mean_z [1, 3, 1, 3] [1, 3] =
          PTuple [Fin (spec_mean (map (\<lambda>x. \<bar>x - spec_mean [1, 3, 1, 3]\<bar> / spec_std [1, 3, 1, 3]) [1, 3])),
                  Fin (spec_std [1, 3, 1, 3])]"
    by blast
  then show ?thesis
    using s by (simp add: spec_std_example spec_mean_def)
qed

section \<open>A zero dispersion as divisor\<close>

lemma np_div_abs_zero: "np_div (np_abs z) (Fin 0) = PInf \<or> np_div (np_abs z) (Fin 0) = NaN"
  by (cases z) auto

lemma centered_inf_nan:
  "y \<in> set (map (\<lambda>x. np_div (np_abs (f x)) (Fin 0)) su) \<Longrightarrow> y = PInf \<or> y = NaN"
  using np_div_abs_zero by auto

lemma np_sum_inf_nan:
  assumes "\<And>y. y \<in> set ys \<Longrightarrow> y = PInf \<or> y = NaN" and "ys \<noteq> []"
  shows "np_sum ys = PInf \<or> np_sum ys = NaN"
  using assms
proof (induction ys)
  case Nil
  then show ?case by simp
next
  case (Cons y ys)
  have y: "y = PInf \<or> y = NaN" using Cons.prems(1) by simp
  show ?case
  proof (cases "ys = []")
    case True
    with y show ?thesis by auto
  next
    case False
    with Cons have "np_sum ys = PInf \<or> np_sum ys = NaN" by simp
    with y show ?thesis by auto
  qed
qed

lemma np_mean_inf_nan:
  assumes "\<And>y. y \<in> set ys \<Longrightarrow> y = PInf \<or> y = NaN" and "ys \<noteq> []"
  shows "np_mean ys = PInf \<or> np_mean ys = NaN"
  using np_sum_inf_nan [OF assms] by (auto simp add: np_mean_def)

lemma set_np_insort: "set (np_insort x xs) = insert x (set xs)"
  by (induction xs) auto

lemma set_np_sort: "set (np_sort xs) = set xs"
  by (induction xs) (simp_all add: set_np_insort)

lemma length_np_insort: "length (np_insort x xs) = Suc (length xs)"
  by (induction xs) simp_all

lemma length_np_sort: "length (np_sort xs) = length xs"
  by (induction xs) (simp_all add: length_np_insort)

lemma np_median_inf_nan:
  assumes "\<And>y. y \<in> set ys \<Longrightarrow> y = PInf \<or> y = NaN" and "ys \<noteq> []"
  shows "np_median ys = PInf \<or> np_median ys = NaN"
proof (cases "NaN \<in> set ys")
  case True
  then show ?thesis by (simp add: np_median_def)
next
  case False
  have nth: "np_sort ys ! k = PInf" if "k < length ys" for k
  proof -
    from that have "np_sort ys ! k \<in> set (np_sort ys)"
      by (simp add: length_np_sort)
    then have "np_sort ys ! k \<in> set ys"
      by (simp add: set_np_sort)
    with assms(1) False show ?thesis by metis
  qed
  have pos: "0 < length ys" using assms(2) by simp
  have a: "np_sort ys ! (length ys div 2) = PInf"
    using pos by (intro nth) simp
  have b: "np_sort ys ! (length ys div 2 - 1) = PInf"
    using pos by (intro nth) (simp add: less_imp_diff_less)
  show ?thesis
    using False assms(2) a b by (simp add: np_median_def Let_def)
qed

text \<open>
  Claim C9, as the code has it. \<open>mean_z\<close> and \<open>robust_std\<close> have no check of the divisor.
  When the standard deviation of \<open>exprdat\<close> (for \<open>mean_z\<close>) or its MAD (for \<open>robust_std\<close>)
  is zero and \<open>su\<close> is not empty, the call raises nothing: it returns a pair whose
  dispersion is 0 and whose score is the infinity or the nan that numpy's division gives.
\<close>

theorem degenerate_dispersion_unguarded:
  assumes "su \<noteq> []"
  shows "(np_std (map Fin (map snd exprdat)) = Fin 0 \<longrightarrow>
            (\<exists>s. mean_z_call [ASeries exprdat, AList su] = Inr (PTuple [s, Fin 0])
                \<and> (s = PInf \<or> s = NaN)))
       \<and> (mad E (map snd exprdat) = Fin 0 \<longrightarrow>
            (\<exists>s. robust_std_call E [ASeries exprdat, AList su] = Inr (PTuple [s, Fin 0])
                \<and> (s = PInf \<or> s = NaN)))"
proof (intro conjI impI)
  assume z: "np_std (map Fin (map snd exprdat)) = Fin 0"
  let ?c = "map (\<lambda>x. np_div (np_abs (np_sub (Fin x) (np_mean (map Fin (map snd exprdat))))) (Fin 0)) su"
  have "np_mean ?c = PInf \<or> np_mean ?c = NaN"
    using assms by (intro np_mean_inf_nan) (erule centered_inf_nan, simp)
  moreover have "mean_z_call [ASeries exprdat, AList su] = Inr (PTuple [np_mean ?c, Fin 0])"
    using z by (simp add: bind_res_simps mean_z_def Let_def)
  ultimately show "\<exists>s. mean_z_call [ASeries exprdat, AList su] = Inr (PTuple [s, Fin 0])
                      \<and> (s = PInf \<or> s = NaN)"
    by blast
next
  assume z: "mad E (map snd exprdat) = Fin 0"
  let ?c = "map (\<lambda>x. np_div (np_abs (np_sub (Fin x) (np_median (map Fin (map snd exprdat))))) (Fin 0)) su"
  have "np_median ?c = PInf \<or> np_median ?c = NaN"
    using assms by (intro np_median_inf_nan) (erule centered_inf_nan, simp)
  moreover have "robust_std_call E [ASeries exprdat, AList su] = Inr (PTuple [np_median ?c, Fin 0])"
    using z by (simp add: bind_res_simps robust_std_def Let_def)
  ultimately show "\<exists>s. robust_std_call E [ASeries exprdat, AList su] = Inr (PTuple [s, Fin 0])
                      \<and> (s = PInf \<or> s = NaN)"
    by blast
qed

theorem degenerate_dispersion_unguarded_witness:
  "np_std (map Fin (map snd [(''A'', 2), (''B'', 2)])) = Fin 0
   \<and> mad example_ext (map snd [(''A'', 2), (''B'', 2)]) = Fin 0
   \<and> (\<exists>s. mean_z_call [ASeries [(''A'', 2), (''B'', 2)], AList [3]] = Inr (PTuple [s, Fin 0])
          \<and> (s = PInf \<or> s = NaN))
   \<and> (\<exists>s. robust_std_call example_ext [ASeries [(''A'', 2), (''B'', 2)], AList [3]] = Inr (PTuple [s, Fin 0])
          \<and> (s = PInf \<or> s = NaN))"
proof -
  have ne: "[3 :: real] \<noteq> []" by simp
  have s: "np_std (map Fin (map snd [(''A'', 2 :: real), (''B'', 2)])) = Fin 0"
    by (simp add: np_std_def np_mean_def np_sub_def)
  have m: "mad example_ext (map snd [(''A'', 2 :: real), (''B'', 2)]) = Fin 0"
    by (simp add: example_ext_def mad_scale_def np_median_def np_sub_def)
  show ?thesis
    using degenerate_dispersion_unguarded [OF ne, of "[(''A'', 2), (''B'', 2)]" example_ext] s m
    by blast
qed

text \<open>
  Claim C9 as stated fails: on a cell with equal counts the selector returns, for
  \<open>mean_z\<close>, the pair \<open>(nan, 0)\<close>, and on a column of MAD 0 it returns, for \<open>robust_std\<close>,
  the pair \<open>(inf, 0)\<close>; neither is an error or any other signal of a degenerate input.
\<close>

theorem degenerate_dispersion_counterexample:
  "method_selector example_ext (example_geneset ''UP'') example_flat_table
     [(''A'', 2), (''B'', 2), (''C'', 2), (''D'', 2)] [''A'', ''Z'', ''B''] ''mean_z'' Map.empty =
     Inr (PTuple [NaN, Fin 0])
   \<and> method_selector example_ext (example_geneset ''UP'') example_flat_table
     [(''A'', 1), (''B'', 1), (''C'', 1), (''D'', 5)] [''D''] ''robust_std'' Map.empty =
     Inr (PTuple [PInf, Fin 0])"
  by (simp add: example_defs run_defs bind_res_simps)

section \<open>Defects of the method selector and of the mode combiner\<close>

text \<open>
  Claim C5 does not hold of the code. \<open>method_selector\<close> calls \<open>median_score\<close> and
  \<open>average_score\<close> with the two arguments \<open>(exprdat, su)\<close> although they have the one
  parameter \<open>su\<close>, and \<open>rank_biased_overlap\<close> with five arguments although it has four
  parameters: each call raises TypeError, so the selector returns no pair for these three
  methods. Called with the values alone, \<open>median_score\<close> does return the median and the
  MAD, and the sibling call of \<open>summed_up\<close> passes the values alone.
\<close>

theorem method_selector_arity_defect:
  "method_selector example_ext (example_geneset ''UP'') example_table
     [(''A'', 1), (''B'', 3), (''C'', 1), (''D'', 3)] [''A'', ''Z'', ''B''] ''median_score'' Map.empty =
     Inl TypeError
   \<and> method_selector example_ext (example_geneset ''UP'') example_table
     [(''A'', 1), (''B'', 3), (''C'', 1), (''D'', 3)] [''A'', ''Z'', ''B''] ''average_score'' Map.empty =
     Inl TypeError
   \<and> method_selector example_ext (example_geneset ''UP'') example_table
     [(''A'', 1), (''B'', 3), (''C'', 1), (''D'', 3)] [''A'', ''Z'', ''B''] ''rank_biased_overlap''
     [''rbo_depth'' \<mapsto> PInt 1] = Inl TypeError
   \<and> median_score_call example_ext [AList [1, 2, 3, 100]] = Inr (PTuple [Fin (5 / 2), Fin (1 / mad_scale)])
   \<and> method_selector example_ext (example_geneset ''UP'') example_table
     [(''A'', 1), (''B'', 3), (''C'', 1), (''D'', 3)] [''A'', ''Z'', ''B''] ''summed_up'' Map.empty =
     Inr (PTuple [Fin 4, Fin (1 / mad_scale)])"
  by (simp add: example_defs run_defs bind_res_simps)

text \<open>
  Claim C6 does not hold of the code. For a method name that is not supported the selector
  returns the string \<open>ERROR\<close>, but \<open>scorefun\<close> does not pass it on: it indexes the string
  as it does a pair, and returns a record whose score is the character \<open>E\<close> and whose var
  is the character \<open>R\<close> (\<open>EE\<close> and \<open>RR\<close> in mode BOTH).
\<close>

theorem unknown_method_not_propagated:
  "method_selector example_ext (example_geneset ''UP'') example_table
     [(''A'', 1), (''B'', 3), (''C'', 1), (''D'', 3)] [''A'', ''Z'', ''B''] ''bogus'' Map.empty =
     Inr (PStr ''ERROR'')
   \<and> scorefun example_ext (example_geneset ''UP'') example_table ''bogus'' Map.empty ''cell1'' (PBool False) =
     Inr \<lparr>res_barcode = ''cell1'', res_name = ''sig'', res_mode = ''UP'',
          res_score = PStr ''E'', res_var = PStr ''R''\<rparr>
   \<and> scorefun example_ext (example_geneset ''BOTH'') example_table ''bogus'' Map.empty ''cell1'' (PBool True) =
     Inr \<lparr>res_barcode = ''cell1'', res_name = ''sig'', res_mode = ''BOTH'',
          res_score = PStr ''EE'', res_var = PStr ''RR''\<rparr>"
  by (simp add: scorefun_def example_defs run_defs bind_res_simps)

end
